theory Spec2Isabelle
  imports Main "HOL-Library.Word"
begin

section \<open>Outcomes of a C++ computation\<close>

text \<open>
  A thrown object is described by what a handler can see of it: an \<open>int\<close> (the tests
  throw \<open>42\<close> and \<open>1\<close>), or an object of class type with the name of its dynamic class,
  the names of its public base classes and its \<open>what()\<close> string.
\<close>

datatype exn = Int_exn int | Class_exn string "string list" string

text \<open>
  A computation returns a value, leaves by a raised exception, or ends the process
  (\<open>std::abort\<close>, \<open>std::terminate\<close>). It is a function from the state before to the outcome
  and the state after.
\<close>

datatype 'a outcome = Normal 'a | Raised exn | Aborted

type_synonym ('s, 'a) prog = "'s \<Rightarrow> 'a outcome \<times> 's"

definition return_prog :: "'a \<Rightarrow> ('s, 'a) prog" where
  "return_prog v s = (Normal v, s)"

definition bind_prog :: "('s, 'a) prog \<Rightarrow> ('a \<Rightarrow> ('s, 'b) prog) \<Rightarrow> ('s, 'b) prog" where
  "bind_prog p k s =
     (case p s of
        (Normal v, s') \<Rightarrow> k v s'
      | (Raised e, s') \<Rightarrow> (Raised e, s')
      | (Aborted, s') \<Rightarrow> (Aborted, s'))"

section \<open>The process-wide state\<close>

text \<open>
  \<open>enum class log_level : int\<close>: a value of the enumeration is a value of its underlying
  type \<open>int\<close>; the six enumerators name 0 to 5. No arithmetic is done on levels, only
  comparison, so the width of \<open>int\<close> plays no part and HOL's \<open>int\<close> stands for it.
\<close>

datatype log_level = log_level (static_cast_int: int)

definition trace :: log_level where "trace = log_level 0"
definition debug :: log_level where "debug = log_level 1"
definition info :: log_level where "info = log_level 2"
definition warn :: log_level where "warn = log_level 3"
definition error :: log_level where "error = log_level 4"
definition off :: log_level where "off = log_level 5"

text \<open>
  \<open>log_sink_t\<close> is a pointer to a function: null, or the address of a function of the
  program. What the function at an address does is given by the program's code, a table
  from addresses to sink functions that the dispatcher takes as a parameter.
\<close>

datatype log_sink_t = nullptr | fn_at nat

text \<open>
  The two function-local statics \<open>runtime_log_level()::lvl\<close> (an atomic \<open>int\<close>) and
  \<open>runtime_sink()::sink\<close> (an atomic \<open>log_sink_t\<close>), the bytes written to standard error,
  and the rest of the program's memory. The model follows one thread, for which a relaxed
  atomic load or store is a read or a write of the field.
\<close>

record 'u process =
  runtime_log_level :: int
  runtime_sink :: log_sink_t
  stderr :: string
  user :: 'u

text \<open>A \<open>const char*\<close> argument may be null; a \<open>va_list\<close> is the list of the variadic arguments.\<close>

type_synonym c_str = "string option"

datatype c_arg = Arg_int int | Arg_str c_str

type_synonym va_list = "c_arg list"

type_synonym 'u sink_fn =
  "log_level \<Rightarrow> c_str \<Rightarrow> int \<Rightarrow> c_str \<Rightarrow> c_str \<Rightarrow> va_list \<Rightarrow> ('u process, unit) prog"

section \<open>Runtime log control\<close>

definition set_log_level :: "log_level \<Rightarrow> 'u process \<Rightarrow> 'u process" where
  "set_log_level lvl st = st\<lparr>runtime_log_level := static_cast_int lvl\<rparr>"

definition get_log_level :: "'u process \<Rightarrow> log_level" where
  "get_log_level st = log_level (runtime_log_level st)"

definition set_log_sink :: "log_sink_t \<Rightarrow> 'u process \<Rightarrow> 'u process" where
  "set_log_sink sink st = st\<lparr>runtime_sink := sink\<rparr>"

definition get_log_sink :: "'u process \<Rightarrow> log_sink_t" where
  "get_log_sink st = runtime_sink st"

text \<open>The public names in namespace \<open>tc::log\<close> forward to the ones above.\<close>

definition set_level :: "log_level \<Rightarrow> 'u process \<Rightarrow> 'u process" where
  "set_level v st = set_log_level v st"

definition get_level :: "'u process \<Rightarrow> log_level" where
  "get_level st = get_log_level st"

definition set_sink :: "log_sink_t \<Rightarrow> 'u process \<Rightarrow> 'u process" where
  "set_sink s st = set_log_sink s st"

definition get_sink :: "'u process \<Rightarrow> log_sink_t" where
  "get_sink st = get_log_sink st"

section \<open>The dispatcher\<close>

text \<open>
  One call of a sink made by the dispatcher: the address called and the arguments passed.
  The dispatcher returns, beside the outcome and the state, the list of the sink calls it
  made itself, so that "the sink is invoked" can be stated.
\<close>

record sink_call =
  callee :: nat
  call_lvl :: log_level
  call_file :: c_str
  call_line :: int
  call_func :: c_str
  call_fmt :: c_str
  call_ap :: va_list

definition vlog_dispatch ::
  "(nat \<Rightarrow> 'u sink_fn) \<Rightarrow> log_level \<Rightarrow> c_str \<Rightarrow> int \<Rightarrow> c_str \<Rightarrow> c_str \<Rightarrow> va_list \<Rightarrow>
   'u process \<Rightarrow> (unit outcome \<times> 'u process) \<times> sink_call list" where
  "vlog_dispatch code lvl file line func fmt ap st =
     (if static_cast_int lvl < runtime_log_level st then ((Normal (), st), [])
      else
        (case runtime_sink st of
           nullptr \<Rightarrow> ((Normal (), st), [])
         | fn_at a \<Rightarrow>
             (code a lvl file line func fmt ap st,
              [\<lparr>callee = a, call_lvl = lvl, call_file = file, call_line = line,
                call_func = func, call_fmt = fmt, call_ap = ap\<rparr>])))"

text \<open>\<open>logf\<close> collects its variadic arguments and hands them to the dispatcher.\<close>

definition logf ::
  "(nat \<Rightarrow> 'u sink_fn) \<Rightarrow> log_level \<Rightarrow> c_str \<Rightarrow> int \<Rightarrow> c_str \<Rightarrow> c_str \<Rightarrow> va_list \<Rightarrow>
   'u process \<Rightarrow> (unit outcome \<times> 'u process) \<times> sink_call list" where
  "logf code lvl file line func fmt ap st = vlog_dispatch code lvl file line func fmt ap st"

text \<open>
  The place of a macro call: what \<open>__FILE__\<close>, \<open>__LINE__\<close> and \<open>__func__\<close> are there.
\<close>

record source_loc =
  loc_file :: string
  loc_line :: int
  loc_func :: string

definition TC_LOG_TRACE ::
  "(nat \<Rightarrow> 'u sink_fn) \<Rightarrow> source_loc \<Rightarrow> c_str \<Rightarrow> va_list \<Rightarrow>
   'u process \<Rightarrow> (unit outcome \<times> 'u process) \<times> sink_call list" where
  "TC_LOG_TRACE code loc fmt ap =
     logf code trace (Some (loc_file loc)) (loc_line loc) (Some (loc_func loc)) fmt ap"

definition TC_LOG_DEBUG ::
  "(nat \<Rightarrow> 'u sink_fn) \<Rightarrow> source_loc \<Rightarrow> c_str \<Rightarrow> va_list \<Rightarrow>
   'u process \<Rightarrow> (unit outcome \<times> 'u process) \<times> sink_call list" where
  "TC_LOG_DEBUG code loc fmt ap =
     logf code debug (Some (loc_file loc)) (loc_line loc) (Some (loc_func loc)) fmt ap"

definition TC_LOG_INFO ::
  "(nat \<Rightarrow> 'u sink_fn) \<Rightarrow> source_loc \<Rightarrow> c_str \<Rightarrow> va_list \<Rightarrow>
   'u process \<Rightarrow> (unit outcome \<times> 'u process) \<times> sink_call list" where
  "TC_LOG_INFO code loc fmt ap =
     logf code info (Some (loc_file loc)) (loc_line loc) (Some (loc_func loc)) fmt ap"

definition TC_LOG_WARN ::
  "(nat \<Rightarrow> 'u sink_fn) \<Rightarrow> source_loc \<Rightarrow> c_str \<Rightarrow> va_list \<Rightarrow>
   'u process \<Rightarrow> (unit outcome \<times> 'u process) \<times> sink_call list" where
  "TC_LOG_WARN code loc fmt ap =
     logf code warn (Some (loc_file loc)) (loc_line loc) (Some (loc_func loc)) fmt ap"

definition TC_LOG_ERROR ::
  "(nat \<Rightarrow> 'u sink_fn) \<Rightarrow> source_loc \<Rightarrow> c_str \<Rightarrow> va_list \<Rightarrow>
   'u process \<Rightarrow> (unit outcome \<times> 'u process) \<times> sink_call list" where
  "TC_LOG_ERROR code loc fmt ap =
     logf code error (Some (loc_file loc)) (loc_line loc) (Some (loc_func loc)) fmt ap"

section \<open>The abort hook\<close>

text \<open>\<open>printf\<close>'s \<open>%d\<close>: the decimal digits of an \<open>int\<close>, with a minus sign when negative.\<close>

definition digit_char :: "nat \<Rightarrow> char" where
  "digit_char d = ''0123456789'' ! (d mod 10)"

fun dec_digits :: "nat \<Rightarrow> string" where
  "dec_digits n =
     (if n < 10 then [digit_char n] else dec_digits (n div 10) @ [digit_char (n mod 10)])"

declare dec_digits.simps [simp del]

definition printf_d :: "int \<Rightarrow> string" where
  "printf_d i = (if i < 0 then CHR ''-'' # dec_digits (nat (- i)) else dec_digits (nat i))"

definition newline :: string where
  "newline = [CHR 0x0A]"

text \<open>
  The text that \<open>default_abort_noexcept\<close> formats: a null \<open>file\<close> or \<open>func\<close> prints as
  \<open>(unknown)\<close>, a null \<open>msg\<close> as \<open>(none)\<close>.
\<close>

definition abort_diagnostic :: "c_str \<Rightarrow> int \<Rightarrow> c_str \<Rightarrow> c_str \<Rightarrow> string" where
  "abort_diagnostic file line func msg =
     ''[tc] fatal: exception thrown but exceptions are disabled'' @ newline @
     ''  at '' @ (case file of Some f \<Rightarrow> f | None \<Rightarrow> ''(unknown)'') @ '':'' @ printf_d line @
     '' in '' @ (case func of Some f \<Rightarrow> f | None \<Rightarrow> ''(unknown)'') @ newline @
     ''  msg: '' @ (case msg of Some m \<Rightarrow> m | None \<Rightarrow> ''(none)'') @ newline"

text \<open>Write the diagnostic to standard error, then \<open>std::abort()\<close>: the function never returns.\<close>

definition default_abort_noexcept ::
  "c_str \<Rightarrow> int \<Rightarrow> c_str \<Rightarrow> c_str \<Rightarrow> ('u process, 'a) prog" where
  "default_abort_noexcept file line func msg st =
     (Aborted, st\<lparr>stderr := stderr st @ abort_diagnostic file line func msg\<rparr>)"

text \<open>
  \<open>TC_ABORT(msg)\<close> as the header defines it when the user has not: the default hook at the
  place of the macro call.
\<close>

definition TC_ABORT :: "source_loc \<Rightarrow> c_str \<Rightarrow> ('u process, 'a) prog" where
  "TC_ABORT loc msg =
     default_abort_noexcept (Some (loc_file loc)) (loc_line loc) (Some (loc_func loc)) msg"

section \<open>Raising\<close>

definition throw :: "exn \<Rightarrow> ('s, 'a) prog" where
  "throw ex s = (Raised ex, s)"

text \<open>
  \<open>TC_THROW(ex)\<close> and \<open>TC_RETHROW()\<close>. The first parameter is \<open>TC_EXCEPTIONS_ENABLED\<close>; the
  second is \<open>TC_ABORT\<close> as it expands at the call, which the user may have defined before
  including the header. \<open>throw;\<close> re-raises the exception being handled, and calls
  \<open>std::terminate\<close> when there is none.
\<close>

definition TC_THROW :: "bool \<Rightarrow> (c_str \<Rightarrow> ('s, 'a) prog) \<Rightarrow> exn \<Rightarrow> ('s, 'a) prog" where
  "TC_THROW exceptions_enabled tc_abort ex =
     (if exceptions_enabled then throw ex
      else tc_abort (Some ''TC_THROW called with exceptions disabled''))"

definition TC_RETHROW :: "bool \<Rightarrow> (c_str \<Rightarrow> ('s, 'a) prog) \<Rightarrow> exn option \<Rightarrow> ('s, 'a) prog" where
  "TC_RETHROW exceptions_enabled tc_abort current =
     (if exceptions_enabled then
        (case current of Some e \<Rightarrow> throw e | None \<Rightarrow> (\<lambda>s. (Aborted, s)))
      else tc_abort (Some ''TC_RETHROW called with exceptions disabled''))"

section \<open>The try/catch macros\<close>

text \<open>
  The keywords the macros expand to: \<open>TC_TRY\<close> is \<open>try\<close> or \<open>if (true)\<close>;
  \<open>TC_CATCH(T, n)\<close> is \<open>catch (T n)\<close> or \<open>else if (false)\<close>; \<open>TC_CATCH_ALL()\<close> is
  \<open>catch (...)\<close> or \<open>else if (false)\<close>. A handled type is named without its
  \<open>const\<close> and \<open>&\<close>.
\<close>

datatype try_kw = Kw_try | Kw_if bool

datatype catch_kw = Kw_catch string | Kw_catch_all | Kw_else_if bool

definition TC_TRY :: "bool \<Rightarrow> try_kw" where
  "TC_TRY exceptions_enabled = (if exceptions_enabled then Kw_try else Kw_if True)"

definition TC_CATCH :: "bool \<Rightarrow> string \<Rightarrow> catch_kw" where
  "TC_CATCH exceptions_enabled T = (if exceptions_enabled then Kw_catch T else Kw_else_if False)"

definition TC_CATCH_ALL :: "bool \<Rightarrow> catch_kw" where
  "TC_CATCH_ALL exceptions_enabled = (if exceptions_enabled then Kw_catch_all else Kw_else_if False)"

text \<open>What the user writes after the \<open>TC_TRY\<close> block, and its expansion.\<close>

datatype catch_macro = CATCH string | CATCH_ALL

fun expand_catch :: "bool \<Rightarrow> catch_macro \<Rightarrow> catch_kw" where
  "expand_catch en (CATCH T) = TC_CATCH en T"
| "expand_catch en CATCH_ALL = TC_CATCH_ALL en"

definition expand_clause :: "bool \<Rightarrow> catch_macro \<times> 'h \<Rightarrow> catch_kw \<times> 'h" where
  "expand_clause en c = (expand_catch en (fst c), snd c)"

section \<open>What the expanded statement does\<close>

text \<open>
  A handler body is run with the exception being handled, if there is one: a branch of an
  \<open>if\<close> chain has none. The blocks of a statement that were run are listed in order:
  the block after \<open>TC_TRY\<close>, and the handlers by their position.
\<close>

type_synonym 's handler = "exn option \<Rightarrow> ('s, unit) prog"

datatype block = Body | Handler nat

text \<open>
  A handler for type \<open>T\<close> matches a thrown object whose type is \<open>T\<close> or a class with the
  public base \<open>T\<close>; \<open>catch (...)\<close> matches every thrown object.
\<close>

fun exn_types :: "exn \<Rightarrow> string list" where
  "exn_types (Int_exn i) = [''int'']"
| "exn_types (Class_exn c bases w) = c # bases"

fun catches :: "catch_kw \<Rightarrow> exn \<Rightarrow> bool" where
  "catches (Kw_catch T) e = (T \<in> set (exn_types e))"
| "catches Kw_catch_all e = True"
| "catches (Kw_else_if c) e = False"

fun find_handler :: "nat \<Rightarrow> (catch_kw \<times> 'h) list \<Rightarrow> exn \<Rightarrow> (nat \<times> 'h) option" where
  "find_handler i [] e = None"
| "find_handler i ((k, h) # cs) e =
     (if catches k e then Some (i, h) else find_handler (Suc i) cs e)"

text \<open>
  \<open>try { body } catch ... \<close>: the handlers are tried in the order written and the first
  that matches runs; with none, the exception leaves the statement.
\<close>

definition cpp_try ::
  "('s, unit) prog \<Rightarrow> (catch_kw \<times> 's handler) list \<Rightarrow> 's \<Rightarrow> (unit outcome \<times> 's) \<times> block list" where
  "cpp_try body cs s =
     (case body s of
        (Raised e, s') \<Rightarrow>
          (case find_handler 0 cs e of
             None \<Rightarrow> ((Raised e, s'), [Body])
           | Some (i, h) \<Rightarrow> (h (Some e) s', [Body, Handler i]))
      | (Normal v, s') \<Rightarrow> ((Normal v, s'), [Body])
      | (Aborted, s') \<Rightarrow> ((Aborted, s'), [Body]))"

text \<open>\<open>if (c) { body } else if (c1) { ... } ...\<close>: the first block whose condition is true runs.\<close>

fun cpp_else_chain ::
  "nat \<Rightarrow> (bool \<times> 's handler) list \<Rightarrow> 's \<Rightarrow> (unit outcome \<times> 's) \<times> block list" where
  "cpp_else_chain i [] s = ((Normal (), s), [])"
| "cpp_else_chain i ((c, h) # cs) s =
     (if c then (h None s, [Handler i]) else cpp_else_chain (Suc i) cs s)"

definition cpp_if ::
  "bool \<Rightarrow> ('s, unit) prog \<Rightarrow> (bool \<times> 's handler) list \<Rightarrow> 's \<Rightarrow>
   (unit outcome \<times> 's) \<times> block list" where
  "cpp_if c body cs s = (if c then (body s, [Body]) else cpp_else_chain 0 cs s)"

text \<open>
  The clauses that may follow \<open>try\<close>: at least one handler, \<open>catch (...)\<close> only in the last
  place. The clauses that may follow \<open>if\<close>: any number of \<open>else if\<close>.
\<close>

fun native_handlers :: "(catch_kw \<times> 'h) list \<Rightarrow> bool" where
  "native_handlers [] = False"
| "native_handlers [(Kw_catch T, h)] = True"
| "native_handlers [(Kw_catch_all, h)] = True"
| "native_handlers ((Kw_catch T, h) # cs) = native_handlers cs"
| "native_handlers (c # cs) = False"

fun else_if_clauses :: "(catch_kw \<times> 'h) list \<Rightarrow> (bool \<times> 'h) list option" where
  "else_if_clauses [] = Some []"
| "else_if_clauses ((Kw_else_if c, h) # cs) =
     (case else_if_clauses cs of None \<Rightarrow> None | Some r \<Rightarrow> Some ((c, h) # r))"
| "else_if_clauses (c # cs) = None"

text \<open>
  The statement made of a head keyword, a block and clauses; \<open>None\<close> when the keywords do
  not make a C++ statement (they always do when every macro is expanded under the same
  setting).
\<close>

fun exec_block ::
  "try_kw \<Rightarrow> ('s, unit) prog \<Rightarrow> (catch_kw \<times> 's handler) list \<Rightarrow> 's \<Rightarrow>
   ((unit outcome \<times> 's) \<times> block list) option" where
  "exec_block Kw_try body cs s =
     (if native_handlers cs then Some (cpp_try body cs s) else None)"
| "exec_block (Kw_if c) body cs s =
     (case else_if_clauses cs of None \<Rightarrow> None | Some r \<Rightarrow> Some (cpp_if c body r s))"

section \<open>The guard\<close>

text \<open>\<open>(void)(expr)\<close>: the value is dropped.\<close>

definition discard :: "('s, 'a) prog \<Rightarrow> ('s, unit) prog" where
  "discard p s =
     (case p s of
        (Normal v, s') \<Rightarrow> (Normal (), s')
      | (Raised e, s') \<Rightarrow> (Raised e, s')
      | (Aborted, s') \<Rightarrow> (Aborted, s'))"

text \<open>
  Inside the lambda of \<open>TC_GUARD\<close> the state is the local \<open>ok\<close> together with what the
  lambda captures by reference. The macro pastes the wrapped expression into the lambda
  after \<open>bool ok = true;\<close>, so the expression is a computation on this whole state: the
  name \<open>ok\<close> in it is the lambda's local, also when the caller has an \<open>ok\<close> of its own,
  which the local hides. Each handler is \<open>ok = false;\<close>.
\<close>

definition ok_false :: "(bool \<times> 's) handler" where
  "ok_false current fr = (Normal (), (False, snd fr))"

text \<open>
  An expression that does not name \<open>ok\<close> is a computation on the captured state alone,
  and leaves the local as it is.
\<close>

definition captured :: "('s, 'a) prog \<Rightarrow> (bool \<times> 's, 'a) prog" where
  "captured p fr = (case p (snd fr) of (r, s') \<Rightarrow> (r, (fst fr, s')))"

text \<open>The expression \<open>ok = v\<close> pasted into the lambda: it stores into the local and has the value \<open>v\<close>.\<close>

definition assign_ok :: "bool \<Rightarrow> (bool \<times> 's, bool) prog" where
  "assign_ok v fr = (Normal v, (v, snd fr))"

text \<open>
  \<open>TC_NOEXCEPT_IF_NOEXCEPTIONS\<close> is \<open>noexcept\<close> when exceptions are disabled and nothing
  otherwise; an exception that would leave a \<open>noexcept\<close> function ends the process.
\<close>

definition TC_NOEXCEPT_IF_NOEXCEPTIONS :: "bool \<Rightarrow> 'a outcome \<times> 's \<Rightarrow> 'a outcome \<times> 's" where
  "TC_NOEXCEPT_IF_NOEXCEPTIONS exceptions_enabled r =
     (if exceptions_enabled then r
      else (case r of
              (Raised e, s') \<Rightarrow> (Aborted, s')
            | (Normal v, s') \<Rightarrow> (Normal v, s')
            | (Aborted, s') \<Rightarrow> (Aborted, s')))"

definition TC_GUARD ::
  "bool \<Rightarrow> (bool \<times> 's, 'a) prog \<Rightarrow> 's \<Rightarrow> (bool outcome \<times> 's) option" where
  "TC_GUARD exceptions_enabled expr s =
     (case exec_block (TC_TRY exceptions_enabled) (discard expr)
             [(TC_CATCH exceptions_enabled ''std::exception'', ok_false),
              (TC_CATCH_ALL exceptions_enabled, ok_false)]
             (True, s) of
        None \<Rightarrow> None
      | Some (r, blocks) \<Rightarrow>
          Some (TC_NOEXCEPT_IF_NOEXCEPTIONS exceptions_enabled
                  (case r of
                     (Normal u, fr) \<Rightarrow> (Normal (fst fr), snd fr)
                   | (Raised e, fr) \<Rightarrow> (Raised e, snd fr)
                   | (Aborted, fr) \<Rightarrow> (Aborted, snd fr))))"

section \<open>Programs of the repository\<close>

definition std_runtime_error :: "string \<Rightarrow> exn" where
  "std_runtime_error w = Class_exn ''std::runtime_error'' [''std::exception''] w"

text \<open>
  The \<open>int\<close> of the two \<open>may_throw\<close> functions is a word of 32 bits, read as a signed number by
  \<open>sint\<close>. Signed overflow of \<open>x * 2\<close> is undefined in C++; the model takes the product
  modulo \<open>2 ^ 32\<close>, which is what a two's-complement machine computes (2147483647 gives -2).
\<close>

type_synonym c_int = "32 word"

text \<open>\<open>may_throw\<close> of the example program.\<close>

definition may_throw :: "bool \<Rightarrow> (c_str \<Rightarrow> ('s, unit) prog) \<Rightarrow> c_int \<Rightarrow> ('s, c_int) prog" where
  "may_throw exceptions_enabled tc_abort x =
     (if exceptions_enabled then
        bind_prog
          (if sint x < 0 then
             TC_THROW exceptions_enabled tc_abort (std_runtime_error ''x must be non-negative'')
           else return_prog ())
          (\<lambda>u. return_prog (x * 2))
      else if sint x < 0 then return_prog (- 1)
      else return_prog (x * 2))"

text \<open>\<open>may_throw\<close> of the guard test.\<close>

definition may_throw_test ::
  "bool \<Rightarrow> (c_str \<Rightarrow> ('s, unit) prog) \<Rightarrow> c_int \<Rightarrow> ('s, c_int) prog" where
  "may_throw_test exceptions_enabled tc_abort x =
     (if exceptions_enabled then
        bind_prog
          (if sint x < 0 then TC_THROW exceptions_enabled tc_abort (std_runtime_error ''neg'')
           else return_prog ())
          (\<lambda>u. return_prog x)
      else return_prog x)"

text \<open>
  The test \<open>CatchOrder.SpecificBeforeGeneral\<close>, in a process whose user memory is the
  local \<open>which\<close>; \<open>loc\<close> is the place of the \<open>TC_THROW\<close>.
\<close>

definition assign :: "'u \<Rightarrow> 'u process handler" where
  "assign v current st = (Normal (), st\<lparr>user := v\<rparr>)"

definition SpecificBeforeGeneral ::
  "source_loc \<Rightarrow> int process \<Rightarrow> ((unit outcome \<times> int process) \<times> block list) option" where
  "SpecificBeforeGeneral loc st =
     exec_block (TC_TRY True) (TC_THROW True (TC_ABORT loc) (std_runtime_error ''rte''))
       [(TC_CATCH True ''std::runtime_error'', assign 1),
        (TC_CATCH True ''std::exception'', assign 2),
        (TC_CATCH_ALL True, assign 3)]
       (st\<lparr>user := 0\<rparr>)"

text \<open>
  The test \<open>TryCatchNoEx.TryRunsCatchSkipped\<close>: the state is the pair of the locals
  \<open>try_ran\<close> and \<open>catch_ran\<close>.
\<close>

definition TryRunsCatchSkipped :: "((unit outcome \<times> int \<times> int) \<times> block list) option" where
  "TryRunsCatchSkipped =
     exec_block (TC_TRY False) (\<lambda>s. (Normal (), (1, snd s)))
       (map (expand_clause False)
          [(CATCH ''std::exception'', \<lambda>current s. (Normal (), (fst s, 1))),
           (CATCH_ALL, \<lambda>current s. (Normal (), (fst s, 1)))])
       (0, 0)"

section \<open>Concrete inputs\<close>

text \<open>
  A program with two sink functions: the one at address 1 counts its calls in the user
  memory; the one at address 2 calls \<open>set_log_level(log_level::off)\<close>, as a sink that
  logs one event and then silences the logger does.
\<close>

definition counting_sink :: "int sink_fn" where
  "counting_sink lvl file line func fmt ap st = (Normal (), st\<lparr>user := user st + 1\<rparr>)"

definition silencing_sink :: "int sink_fn" where
  "silencing_sink lvl file line func fmt ap st = (Normal (), set_log_level off st)"

definition two_sinks :: "nat \<Rightarrow> int sink_fn" where
  "two_sinks a = (if a = 2 then silencing_sink else counting_sink)"

definition counting_process :: "int process" where
  "counting_process =
     \<lparr>runtime_log_level = static_cast_int info, runtime_sink = fn_at 1, stderr = [], user = 0\<rparr>"

definition silencing_process :: "int process" where
  "silencing_process =
     \<lparr>runtime_log_level = static_cast_int info, runtime_sink = fn_at 2, stderr = [], user = 0\<rparr>"

definition test_loc :: source_loc where
  "test_loc = \<lparr>loc_file = ''test_helpers_abort.cpp'', loc_line = 30, loc_func = ''may_throw''\<rparr>"

section \<open>Auxiliary facts\<close>

lemmas level_defs = trace_def debug_def info_def warn_def error_def off_def

lemmas log_macro_defs =
  TC_LOG_TRACE_def TC_LOG_DEBUG_def TC_LOG_INFO_def TC_LOG_WARN_def TC_LOG_ERROR_def

text \<open>
  \<open>printf_d\<close> on a few numbers.
\<close>

lemma printf_d_examples: "printf_d 192 = ''192'' \<and> printf_d (- 7) = ''-7'' \<and> printf_d 0 = ''0''"
  by (simp add: printf_d_def dec_digits.simps digit_char_def)

text \<open>
  With exceptions disabled every clause written with \<open>TC_CATCH\<close> or \<open>TC_CATCH_ALL\<close> is an
  \<open>else if (false)\<close> that keeps its block, and a chain of such clauses runs none of them.
\<close>

lemma else_if_clauses_expand:
  "else_if_clauses (map (expand_clause False) hs) = Some (map (\<lambda>c. (False, snd c)) hs)"
proof (induction hs)
  case Nil
  show ?case by simp
next
  case (Cons c hs)
  obtain m h where c: "c = (m, h)" by (cases c)
  show ?case
    using Cons.IH by (cases m) (simp_all add: c expand_clause_def TC_CATCH_def TC_CATCH_ALL_def)
qed

lemma else_chain_all_false:
  "cpp_else_chain i (map (\<lambda>c. (False, snd c)) hs) s = ((Normal (), s), [])"
  by (induction hs arbitrary: i) simp_all

lemma expand_clause_keywords:
  "map fst (map (expand_clause False) hs) = replicate (length hs) (Kw_else_if False)"
proof (induction hs)
  case Nil
  show ?case by simp
next
  case (Cons c hs)
  then show ?case
    by (cases "fst c") (simp_all add: expand_clause_def TC_CATCH_def TC_CATCH_ALL_def)
qed

lemma expand_clause_bodies: "map snd (map (expand_clause en) hs) = map snd hs"
  by (induction hs) (simp_all add: expand_clause_def)

text \<open>
  What \<open>TC_GUARD\<close> comes to under each setting.
\<close>

lemma guard_clauses_disabled:
  "else_if_clauses [(TC_CATCH False T, h1), (TC_CATCH_ALL False, h2)] =
     Some [(False, h1), (False, h2)]"
  by (simp add: TC_CATCH_def TC_CATCH_ALL_def)

lemma guard_disabled_eq:
  "TC_GUARD False expr s =
     Some (case expr (True, s) of
             (Normal v, fr) \<Rightarrow> (Normal (fst fr), snd fr)
           | (Raised e, fr) \<Rightarrow> (Aborted, snd fr)
           | (Aborted, fr) \<Rightarrow> (Aborted, snd fr))"
  by (simp add: TC_GUARD_def TC_TRY_def guard_clauses_disabled cpp_if_def
      discard_def TC_NOEXCEPT_IF_NOEXCEPTIONS_def split: prod.splits outcome.splits)

lemma guard_enabled_eq:
  "TC_GUARD True expr s =
     Some (case expr (True, s) of
             (Normal v, fr) \<Rightarrow> (Normal (fst fr), snd fr)
           | (Raised e, fr) \<Rightarrow> (Normal False, snd fr)
           | (Aborted, fr) \<Rightarrow> (Aborted, snd fr))"
  by (simp add: TC_GUARD_def TC_TRY_def TC_CATCH_def TC_CATCH_ALL_def cpp_try_def
      discard_def TC_NOEXCEPT_IF_NOEXCEPTIONS_def ok_false_def
      split: prod.splits outcome.splits)

text \<open>
  The guard around an expression that does not name \<open>ok\<close>.
\<close>

lemma guard_disabled_captured:
  "TC_GUARD False (captured p) s =
     Some (case p s of
             (Normal v, s') \<Rightarrow> (Normal True, s')
           | (Raised e, s') \<Rightarrow> (Aborted, s')
           | (Aborted, s') \<Rightarrow> (Aborted, s'))"
  by (simp add: guard_disabled_eq captured_def split: prod.splits outcome.splits)

lemma guard_enabled_captured:
  "TC_GUARD True (captured p) s =
     Some (case p s of
             (Normal v, s') \<Rightarrow> (Normal True, s')
           | (Raised e, s') \<Rightarrow> (Normal False, s')
           | (Aborted, s') \<Rightarrow> (Aborted, s'))"
  by (simp add: guard_enabled_eq captured_def split: prod.splits outcome.splits)

text \<open>
  The default \<open>TC_ABORT\<close> with a message that is not null.
\<close>

lemma TC_ABORT_eq:
  "TC_ABORT loc (Some m) st =
     (Aborted,
      st\<lparr>stderr := stderr st @
         ''[tc] fatal: exception thrown but exceptions are disabled'' @ newline @
         ''  at '' @ loc_file loc @ '':'' @ printf_d (loc_line loc) @
         '' in '' @ loc_func loc @ newline @
         ''  msg: '' @ m @ newline\<rparr>)"
  by (simp add: TC_ABORT_def default_abort_noexcept_def abort_diagnostic_def)

section \<open>The logging dispatcher: delivery\<close>

text \<open>
  C1. With minimum level \<open>L\<close> configured and a sink \<open>a\<close> active, a log call at level
  \<open>E\<close> calls the sink \<open>a\<close>, once and with the arguments of the call, if and only if
  \<open>L \<le> E\<close>; it makes no sink call if and only if \<open>E < L\<close>, and then it returns with the state
  as it was. When it is delivered, what the call does is what the sink does. Each of the
  macros for the five named levels delivers exactly when \<open>L\<close> is at most its level.
\<close>

theorem log_delivered_iff_level_ge:
  assumes "get_log_level st = L" and "get_log_sink st = fn_at a"
  shows "(snd (logf code E fi li fu fmt ap st) =
            [\<lparr>callee = a, call_lvl = E, call_file = fi, call_line = li,
              call_func = fu, call_fmt = fmt, call_ap = ap\<rparr>]
          \<longleftrightarrow> static_cast_int L \<le> static_cast_int E) \<and>
         (snd (logf code E fi li fu fmt ap st) = []
          \<longleftrightarrow> static_cast_int E < static_cast_int L) \<and>
         (static_cast_int E < static_cast_int L \<longrightarrow>
            logf code E fi li fu fmt ap st = ((Normal (), st), [])) \<and>
         (static_cast_int L \<le> static_cast_int E \<longrightarrow>
            fst (logf code E fi li fu fmt ap st) = code a E fi li fu fmt ap st) \<and>
         (snd (TC_LOG_TRACE code loc fmt ap st) \<noteq> [] \<longleftrightarrow> static_cast_int L \<le> 0) \<and>
         (snd (TC_LOG_DEBUG code loc fmt ap st) \<noteq> [] \<longleftrightarrow> static_cast_int L \<le> 1) \<and>
         (snd (TC_LOG_INFO code loc fmt ap st) \<noteq> [] \<longleftrightarrow> static_cast_int L \<le> 2) \<and>
         (snd (TC_LOG_WARN code loc fmt ap st) \<noteq> [] \<longleftrightarrow> static_cast_int L \<le> 3) \<and>
         (snd (TC_LOG_ERROR code loc fmt ap st) \<noteq> [] \<longleftrightarrow> static_cast_int L \<le> 4)"
  using assms
  by (auto simp: logf_def vlog_dispatch_def get_log_level_def get_log_sink_def
      log_macro_defs level_defs)

theorem log_delivered_iff_level_ge_witness:
  "get_log_level counting_process = info \<and> get_log_sink counting_process = fn_at 1 \<and>
   snd (logf two_sinks warn None 7 None None [] counting_process) =
     [\<lparr>callee = 1, call_lvl = warn, call_file = None, call_line = 7,
       call_func = None, call_fmt = None, call_ap = []\<rparr>] \<and>
   logf two_sinks debug None 7 None None [] counting_process = ((Normal (), counting_process), []) \<and>
   user (snd (fst (logf two_sinks warn None 7 None None [] counting_process))) = 1"
proof -
  have l: "get_log_level counting_process = info"
    by (simp add: get_log_level_def counting_process_def)
  have k: "get_log_sink counting_process = fn_at 1"
    by (simp add: get_log_sink_def counting_process_def)
  have ge: "static_cast_int info \<le> static_cast_int warn"
    by (simp add: level_defs)
  have lt: "static_cast_int debug < static_cast_int info"
    by (simp add: level_defs)
  have c: "user (snd (two_sinks 1 warn None 7 None None [] counting_process)) = 1"
    by (simp add: two_sinks_def counting_sink_def counting_process_def)
  from log_delivered_iff_level_ge [OF l k, of two_sinks warn None 7 None None "[]"]
    log_delivered_iff_level_ge [OF l k, of two_sinks debug None 7 None None "[]"]
    l k ge lt c
  show ?thesis by simp
qed

section \<open>The guard without exceptions\<close>

text \<open>
  C2, as the code has it by design. With exceptions disabled, let the wrapped operation
  not name the guard's local \<open>ok\<close>. When it returns, \<open>TC_GUARD\<close> returns \<open>true\<close>, whatever
  value the operation returns and whatever state it leaves; when it ends the process, as
  \<open>TC_THROW\<close> and \<open>TC_RETHROW\<close> do under the default \<open>TC_ABORT\<close>, the guard does not
  return. Both \<open>may_throw\<close> functions of the repository return for every argument under
  this setting, so the guard is \<open>true\<close> for them.
\<close>

theorem guard_disabled_true_when_returns:
  "(p s = (Normal v, s') \<longrightarrow> TC_GUARD False (captured p) s = Some (Normal True, s')) \<and>
   (p s = (Aborted, s') \<longrightarrow> TC_GUARD False (captured p) s = Some (Aborted, s')) \<and>
   TC_GUARD False (captured (may_throw_test False tc_abort x)) s = Some (Normal True, s) \<and>
   TC_GUARD False (captured (may_throw False tc_abort x)) s = Some (Normal True, s) \<and>
   TC_GUARD False (captured (TC_THROW False (TC_ABORT loc) ex)) st =
     Some (Aborted,
           st\<lparr>stderr := stderr st @
              abort_diagnostic (Some (loc_file loc)) (loc_line loc) (Some (loc_func loc))
                (Some ''TC_THROW called with exceptions disabled'')\<rparr>) \<and>
   TC_GUARD False (captured (TC_RETHROW False (TC_ABORT loc) current)) st =
     Some (Aborted,
           st\<lparr>stderr := stderr st @
              abort_diagnostic (Some (loc_file loc)) (loc_line loc) (Some (loc_func loc))
                (Some ''TC_RETHROW called with exceptions disabled'')\<rparr>)"
  by (simp add: guard_disabled_captured may_throw_test_def may_throw_def return_prog_def
      TC_THROW_def TC_RETHROW_def TC_ABORT_def default_abort_noexcept_def)

theorem guard_disabled_true_when_returns_witness:
  "may_throw_test False (TC_ABORT test_loc) (- 1) counting_process =
     (Normal (- 1), counting_process) \<and>
   TC_GUARD False (captured (may_throw_test False (TC_ABORT test_loc) (- 1))) counting_process =
     Some (Normal True, counting_process) \<and>
   TC_GUARD False (captured (may_throw_test False (TC_ABORT test_loc) 1)) counting_process =
     Some (Normal True, counting_process)"
proof -
  have r: "may_throw_test False (TC_ABORT test_loc) (- 1) counting_process =
      (Normal (- 1), counting_process)"
    by (simp add: may_throw_test_def return_prog_def)
  have a: "TC_GUARD False (captured (may_throw_test False (TC_ABORT test_loc) (- 1)))
      counting_process = Some (Normal True, counting_process)"
    using guard_disabled_true_when_returns
      [where p = "may_throw_test False (TC_ABORT test_loc) (- 1)" and s = counting_process
         and v = "- 1" and s' = counting_process, THEN conjunct1] r
    by (rule mp)
  have b: "TC_GUARD False (captured (may_throw_test False (TC_ABORT test_loc) 1))
      counting_process = Some (Normal True, counting_process)"
    by (rule guard_disabled_true_when_returns [THEN conjunct2, THEN conjunct2, THEN conjunct1])
  show ?thesis
    using r a b by (intro conjI)
qed

text \<open>
  C2, as it is stated, fails for a wrapped operation that reaches \<open>TC_THROW\<close>: with
  exceptions disabled and the default \<open>TC_ABORT\<close>,
  \<open>TC_GUARD(TC_THROW(std::runtime_error("neg")))\<close> ends the process and yields no \<open>true\<close>.
\<close>

theorem guard_disabled_abort_counterexample:
  "map_option fst
     (TC_GUARD False (captured (TC_THROW False (TC_ABORT test_loc) (std_runtime_error ''neg'')))
        counting_process) = Some Aborted \<and>
   map_option fst
     (TC_GUARD False (captured (TC_THROW False (TC_ABORT test_loc) (std_runtime_error ''neg'')))
        counting_process) \<noteq> Some (Normal True)"
  by (simp add: guard_disabled_captured TC_THROW_def TC_ABORT_def default_abort_noexcept_def)

section \<open>Raising without exceptions\<close>

text \<open>
  C3. With exceptions disabled, \<open>TC_THROW\<close> and \<open>TC_RETHROW\<close> are calls of the abort
  hook with their fixed messages. The default hook appends to standard error the
  diagnostic with the file, the line, the function and the message of the call, and the
  process ends there: code sequenced after the call is not run, and neither a
  \<open>TC_TRY\<close> block with any handlers nor \<open>TC_GUARD\<close> around the call changes the outcome.
\<close>

theorem throw_disabled_aborts:
  "TC_THROW False tc_abort ex = tc_abort (Some ''TC_THROW called with exceptions disabled'') \<and>
   TC_RETHROW False tc_abort current =
     tc_abort (Some ''TC_RETHROW called with exceptions disabled'') \<and>
   TC_THROW False (TC_ABORT loc) ex st =
     (Aborted,
      st\<lparr>stderr := stderr st @
         ''[tc] fatal: exception thrown but exceptions are disabled'' @ newline @
         ''  at '' @ loc_file loc @ '':'' @ printf_d (loc_line loc) @
         '' in '' @ loc_func loc @ newline @
         ''  msg: '' @ ''TC_THROW called with exceptions disabled'' @ newline\<rparr>) \<and>
   TC_RETHROW False (TC_ABORT loc) current st =
     (Aborted,
      st\<lparr>stderr := stderr st @
         ''[tc] fatal: exception thrown but exceptions are disabled'' @ newline @
         ''  at '' @ loc_file loc @ '':'' @ printf_d (loc_line loc) @
         '' in '' @ loc_func loc @ newline @
         ''  msg: '' @ ''TC_RETHROW called with exceptions disabled'' @ newline\<rparr>) \<and>
   default_abort_noexcept fi li fu msg st =
     (Aborted, st\<lparr>stderr := stderr st @ abort_diagnostic fi li fu msg\<rparr>) \<and>
   bind_prog (TC_THROW False (TC_ABORT loc) ex) k st = TC_THROW False (TC_ABORT loc) ex st \<and>
   bind_prog (TC_RETHROW False (TC_ABORT loc) current) k st =
     TC_RETHROW False (TC_ABORT loc) current st \<and>
   exec_block (TC_TRY False) (TC_THROW False (TC_ABORT loc) ex)
     (map (expand_clause False) hs) st =
     Some (TC_THROW False (TC_ABORT loc) ex st, [Body]) \<and>
   TC_GUARD False (captured (TC_THROW False (TC_ABORT loc) ex)) st =
     Some (TC_THROW False (TC_ABORT loc) ex st)"
proof -
  have t: "TC_THROW False tc_abort ex =
      tc_abort (Some ''TC_THROW called with exceptions disabled'')"
    by (simp add: TC_THROW_def)
  have r: "TC_RETHROW False tc_abort current =
      tc_abort (Some ''TC_RETHROW called with exceptions disabled'')"
    by (simp add: TC_RETHROW_def)
  have tt: "TC_THROW False (TC_ABORT loc) ex st =
     (Aborted,
      st\<lparr>stderr := stderr st @
         ''[tc] fatal: exception thrown but exceptions are disabled'' @ newline @
         ''  at '' @ loc_file loc @ '':'' @ printf_d (loc_line loc) @
         '' in '' @ loc_func loc @ newline @
         ''  msg: '' @ ''TC_THROW called with exceptions disabled'' @ newline\<rparr>)"
    unfolding TC_THROW_def by (simp only: if_False TC_ABORT_eq)
  have rr: "TC_RETHROW False (TC_ABORT loc) current st =
     (Aborted,
      st\<lparr>stderr := stderr st @
         ''[tc] fatal: exception thrown but exceptions are disabled'' @ newline @
         ''  at '' @ loc_file loc @ '':'' @ printf_d (loc_line loc) @
         '' in '' @ loc_func loc @ newline @
         ''  msg: '' @ ''TC_RETHROW called with exceptions disabled'' @ newline\<rparr>)"
    unfolding TC_RETHROW_def by (simp only: if_False TC_ABORT_eq)
  have d: "default_abort_noexcept fi li fu msg st =
      (Aborted, st\<lparr>stderr := stderr st @ abort_diagnostic fi li fu msg\<rparr>)"
    by (simp add: default_abort_noexcept_def)
  have b: "bind_prog (TC_THROW False (TC_ABORT loc) ex) k st = TC_THROW False (TC_ABORT loc) ex st"
    by (simp add: bind_prog_def TC_THROW_def TC_ABORT_eq)
  have b': "bind_prog (TC_RETHROW False (TC_ABORT loc) current) k st =
      TC_RETHROW False (TC_ABORT loc) current st"
    by (simp add: bind_prog_def TC_RETHROW_def TC_ABORT_eq)
  have e: "exec_block (TC_TRY False) (TC_THROW False (TC_ABORT loc) ex)
      (map (expand_clause False) hs) st = Some (TC_THROW False (TC_ABORT loc) ex st, [Body])"
    by (simp add: TC_TRY_def else_if_clauses_expand cpp_if_def)
  have g: "TC_GUARD False (captured (TC_THROW False (TC_ABORT loc) ex)) st =
      Some (TC_THROW False (TC_ABORT loc) ex st)"
    by (simp add: guard_disabled_captured TC_THROW_def TC_ABORT_eq)
  show ?thesis
    using t r tt rr d b b' e g by (intro conjI)
qed

theorem throw_disabled_aborts_witness:
  "TC_THROW False (TC_ABORT test_loc) (std_runtime_error ''neg'') counting_process =
     (Aborted,
      counting_process\<lparr>stderr :=
        ''[tc] fatal: exception thrown but exceptions are disabled'' @ newline @
        ''  at test_helpers_abort.cpp:30 in may_throw'' @ newline @
        ''  msg: TC_THROW called with exceptions disabled'' @ newline\<rparr>)"
proof -
  have "printf_d (loc_line test_loc) = ''30''"
    by (simp add: test_loc_def printf_d_def dec_digits.simps digit_char_def)
  with throw_disabled_aborts
    [where loc = test_loc and ex = "std_runtime_error ''neg''" and st = counting_process,
      THEN conjunct2, THEN conjunct2, THEN conjunct1]
  show ?thesis
    by (simp add: test_loc_def counting_process_def)
qed

section \<open>The try block without exceptions\<close>

text \<open>
  C4. With exceptions disabled, a \<open>TC_TRY\<close> block followed by any handlers written with
  \<open>TC_CATCH\<close> and \<open>TC_CATCH_ALL\<close> does what its body does: the body is the one block that
  runs, and no handler does. The handlers remain in the expanded statement, each as the
  block of an \<open>else if (false)\<close>, and these clauses taken by themselves run nothing.
\<close>

theorem disabled_try_runs_body_only:
  "exec_block (TC_TRY False) body (map (expand_clause False) hs) s = Some (body s, [Body]) \<and>
   map fst (map (expand_clause False) hs) = replicate (length hs) (Kw_else_if False) \<and>
   map snd (map (expand_clause False) hs) = map snd hs \<and>
   else_if_clauses (map (expand_clause False) hs) = Some (map (\<lambda>c. (False, snd c)) hs) \<and>
   cpp_else_chain 0 (map (\<lambda>c. (False, snd c)) hs) s = ((Normal (), s), [])"
proof -
  have "exec_block (TC_TRY False) body (map (expand_clause False) hs) s = Some (body s, [Body])"
    by (simp add: TC_TRY_def else_if_clauses_expand cpp_if_def)
  then show ?thesis
    using expand_clause_keywords [of hs] expand_clause_bodies [of False hs]
      else_if_clauses_expand [of hs] else_chain_all_false [of 0 hs s]
    by (intro conjI)
qed

theorem disabled_try_runs_body_only_witness:
  "TryRunsCatchSkipped = Some ((Normal (), (1, 0)), [Body])"
  unfolding TryRunsCatchSkipped_def
  using disabled_try_runs_body_only
    [where body = "\<lambda>s::int \<times> int. (Normal (), (1, snd s))"
       and hs = "[(CATCH ''std::exception'', \<lambda>current (s::int \<times> int). (Normal (), (fst s, 1))),
                  (CATCH_ALL, \<lambda>current s. (Normal (), (fst s, 1)))]"
       and s = "(0, 0)", THEN conjunct1]
  by simp

section \<open>The guard with exceptions\<close>

text \<open>
  C5 at the expression \<open>ok = false\<close>, with exceptions enabled: the expression completes
  without raising, with the value \<open>false\<close>, the state it captures is as before, no handler
  runs, and \<open>TC_GUARD\<close> returns \<open>false\<close>. The header's comment on the macro says that it
  returns \<open>true\<close> when the expression ran without an exception.
\<close>

theorem guard_enabled_names_ok:
  "assign_ok False (True, counting_process) = (Normal False, (False, counting_process)) \<and>
   map_option snd
     (exec_block (TC_TRY True) (discard (assign_ok False))
        [(TC_CATCH True ''std::exception'', ok_false), (TC_CATCH_ALL True, ok_false)]
        (True, counting_process)) = Some [Body] \<and>
   TC_GUARD True (assign_ok False) counting_process = Some (Normal False, counting_process)"
  by (simp add: guard_enabled_eq assign_ok_def TC_TRY_def TC_CATCH_def TC_CATCH_ALL_def
      cpp_try_def discard_def)

text \<open>
  The same expression with exceptions disabled, in any state.
\<close>

lemma guard_disabled_names_ok:
  "TC_GUARD False (assign_ok False) s = Some (Normal False, s)"
  by (simp add: guard_disabled_eq assign_ok_def)

text \<open>
  What holds of the guard with exceptions enabled. Around an operation that does not name
  \<open>ok\<close> it returns \<open>true\<close> when the operation returns. Around any expression it returns
  \<open>false\<close> when the expression raises, whatever is raised: an object with the type or the
  base \<open>std::exception\<close> is caught by the first handler, any other by the catch-all. For
  \<open>may_throw\<close>, which raises exactly on negative input, it is \<open>true\<close> for 1 and \<open>false\<close>
  for -1.
\<close>

lemma guard_enabled_without_ok:
  "(p s = (Normal v, s') \<longrightarrow> TC_GUARD True (captured p) s = Some (Normal True, s')) \<and>
   (expr (True, s) = (Raised e, fr) \<longrightarrow> TC_GUARD True expr s = Some (Normal False, snd fr)) \<and>
   (expr (True, s) = (Raised e, fr) \<longrightarrow>
      map_option snd
        (exec_block (TC_TRY True) (discard expr)
           [(TC_CATCH True ''std::exception'', ok_false), (TC_CATCH_ALL True, ok_false)]
           (True, s)) =
      Some [Body, Handler (if ''std::exception'' \<in> set (exn_types e) then 0 else 1)]) \<and>
   (0 \<le> sint x \<longrightarrow>
      TC_GUARD True (captured (may_throw True tc_abort x)) s = Some (Normal True, s)) \<and>
   (sint x < 0 \<longrightarrow>
      TC_GUARD True (captured (may_throw True tc_abort x)) s = Some (Normal False, s)) \<and>
   TC_GUARD True (captured (may_throw True tc_abort 1)) s = Some (Normal True, s) \<and>
   TC_GUARD True (captured (may_throw True tc_abort (- 1))) s = Some (Normal False, s)"
proof -
  have h: "expr (True, s) = (Raised e, fr) \<longrightarrow>
      map_option snd
        (exec_block (TC_TRY True) (discard expr)
           [(TC_CATCH True ''std::exception'', ok_false), (TC_CATCH_ALL True, ok_false)]
           (True, s)) =
      Some [Body, Handler (if ''std::exception'' \<in> set (exn_types e) then 0 else 1)]"
    by (simp add: TC_TRY_def TC_CATCH_def TC_CATCH_ALL_def cpp_try_def discard_def)
  have c: "p s = (Normal v, s') \<longrightarrow> TC_GUARD True (captured p) s = Some (Normal True, s')"
    by (simp add: guard_enabled_captured)
  have r: "expr (True, s) = (Raised e, fr) \<longrightarrow> TC_GUARD True expr s = Some (Normal False, snd fr)"
    by (simp add: guard_enabled_eq)
  have m: "(0 \<le> sint x \<longrightarrow>
        TC_GUARD True (captured (may_throw True tc_abort x)) s = Some (Normal True, s)) \<and>
     (sint x < 0 \<longrightarrow>
        TC_GUARD True (captured (may_throw True tc_abort x)) s = Some (Normal False, s)) \<and>
     TC_GUARD True (captured (may_throw True tc_abort 1)) s = Some (Normal True, s) \<and>
     TC_GUARD True (captured (may_throw True tc_abort (- 1))) s = Some (Normal False, s)"
    by (simp add: guard_enabled_captured may_throw_def return_prog_def bind_prog_def
        TC_THROW_def throw_def)
  show ?thesis
    using c r h m by (intro conjI) simp_all
qed

lemma guard_enabled_without_ok_examples:
  "TC_GUARD True (captured (may_throw_test True (TC_ABORT test_loc) 1)) counting_process =
     Some (Normal True, counting_process) \<and>
   TC_GUARD True (captured (may_throw_test True (TC_ABORT test_loc) (- 1))) counting_process =
     Some (Normal False, counting_process) \<and>
   TC_GUARD True (captured (may_throw True (TC_ABORT test_loc) 1)) counting_process =
     Some (Normal True, counting_process) \<and>
   TC_GUARD True (captured (may_throw True (TC_ABORT test_loc) (- 1))) counting_process =
     Some (Normal False, counting_process) \<and>
   TC_GUARD True (captured (may_throw True (TC_ABORT test_loc) 2147483647)) counting_process =
     Some (Normal True, counting_process) \<and>
   may_throw True (TC_ABORT test_loc) 2147483647 counting_process =
     (Normal (- 2), counting_process) \<and>
   TC_GUARD True (captured (throw (Int_exn 42) :: (int process, unit) prog)) counting_process =
     Some (Normal False, counting_process)"
  by (simp add: guard_enabled_captured may_throw_test_def may_throw_def return_prog_def
      bind_prog_def TC_THROW_def throw_def)

section \<open>The logging dispatcher: null sink\<close>

text \<open>
  C6. When the sink is null, a log call at any level and with any arguments returns
  normally, leaves the state as it was and calls no sink.
\<close>

theorem null_sink_noop:
  assumes "get_log_sink st = nullptr"
  shows "vlog_dispatch code lvl fi li fu fmt ap st = ((Normal (), st), []) \<and>
         logf code lvl fi li fu fmt ap st = ((Normal (), st), []) \<and>
         TC_LOG_TRACE code loc fmt ap st = ((Normal (), st), []) \<and>
         TC_LOG_DEBUG code loc fmt ap st = ((Normal (), st), []) \<and>
         TC_LOG_INFO code loc fmt ap st = ((Normal (), st), []) \<and>
         TC_LOG_WARN code loc fmt ap st = ((Normal (), st), []) \<and>
         TC_LOG_ERROR code loc fmt ap st = ((Normal (), st), [])"
  using assms
  by (simp add: logf_def vlog_dispatch_def get_log_sink_def log_macro_defs)

theorem null_sink_noop_witness:
  "get_log_sink (set_sink nullptr counting_process) = nullptr \<and>
   logf two_sinks error None 7 None None [] (set_sink nullptr counting_process) =
     ((Normal (), set_sink nullptr counting_process), [])"
proof -
  have n: "get_log_sink (set_sink nullptr counting_process) = nullptr"
    by (simp add: get_log_sink_def set_sink_def set_log_sink_def)
  from null_sink_noop [OF n, of two_sinks error None 7 None None "[]"] n
  show ?thesis by simp
qed

section \<open>Setting and getting\<close>

text \<open>
  C7. \<open>get_level\<close> returns the level stored by the latest \<open>set_level\<close>, and \<open>get_sink\<close>
  the sink stored by the latest \<open>set_sink\<close>, also when the other component was set in
  between.
\<close>

theorem get_after_set:
  "get_level (set_level L st) = L \<and>
   get_sink (set_sink s st) = s \<and>
   get_log_level (set_log_level L st) = L \<and>
   get_log_sink (set_log_sink s st) = s \<and>
   get_level (set_level L2 (set_level L1 st)) = L2 \<and>
   get_sink (set_sink s2 (set_sink s1 st)) = s2 \<and>
   get_level (set_sink s (set_level L st)) = L \<and>
   get_sink (set_level L (set_sink s st)) = s"
  by (simp add: get_level_def set_level_def get_sink_def set_sink_def
      get_log_level_def set_log_level_def get_log_sink_def set_log_sink_def)

section \<open>Order of handlers\<close>

text \<open>
  C8. With exceptions enabled, let a \<open>TC_TRY\<close> block be followed by a handler for the type
  \<open>T1\<close>, a handler for another type \<open>T2\<close> and a catch-all, in this order. When the body
  raises an object that the first handler matches, the statement does what the first
  handler does on the state the body left; the blocks run are the body and then the first
  handler, once, and neither the second handler nor the catch-all.
\<close>

theorem specific_handler_runs:
  assumes "body s = (Raised e, s')" and "T1 \<in> set (exn_types e)"
  shows "exec_block (TC_TRY True) body
           [(TC_CATCH True T1, h1), (TC_CATCH True T2, h2), (TC_CATCH_ALL True, h3)] s =
         Some (h1 (Some e) s', [Body, Handler 0])"
  using assms by (simp add: TC_TRY_def TC_CATCH_def TC_CATCH_ALL_def cpp_try_def)

theorem specific_handler_runs_witness:
  "TC_THROW True (TC_ABORT test_loc) (std_runtime_error ''rte'') (counting_process\<lparr>user := 0\<rparr>) =
     (Raised (std_runtime_error ''rte''), counting_process\<lparr>user := 0\<rparr>) \<and>
   ''std::runtime_error'' \<in> set (exn_types (std_runtime_error ''rte'')) \<and>
   catches (TC_CATCH True ''std::exception'') (std_runtime_error ''rte'') \<and>
   SpecificBeforeGeneral test_loc counting_process =
     Some ((Normal (), counting_process\<lparr>user := 1\<rparr>), [Body, Handler 0])"
proof -
  have g: "catches (TC_CATCH True ''std::exception'') (std_runtime_error ''rte'')"
    by (simp add: TC_CATCH_def std_runtime_error_def)
  have r: "TC_THROW True (TC_ABORT test_loc) (std_runtime_error ''rte'')
             (counting_process\<lparr>user := 0\<rparr>) =
           (Raised (std_runtime_error ''rte''), counting_process\<lparr>user := 0\<rparr>)"
    by (simp add: TC_THROW_def throw_def)
  have m: "''std::runtime_error'' \<in> set (exn_types (std_runtime_error ''rte''))"
    by (simp add: std_runtime_error_def)
  have "exec_block (TC_TRY True) (TC_THROW True (TC_ABORT test_loc) (std_runtime_error ''rte''))
          [(TC_CATCH True ''std::runtime_error'', assign 1),
           (TC_CATCH True ''std::exception'', assign 2),
           (TC_CATCH_ALL True, assign 3)]
          (counting_process\<lparr>user := 0\<rparr>) =
        Some (assign 1 (Some (std_runtime_error ''rte'')) (counting_process\<lparr>user := 0\<rparr>),
              [Body, Handler 0])"
    using r m by (rule specific_handler_runs)
  with r m g show ?thesis
    by (simp add: SpecificBeforeGeneral_def assign_def)
qed

section \<open>What each operation leaves unchanged\<close>

text \<open>
  C9, as the code has it. \<open>set_level\<close> changes nothing but the level and \<open>set_sink\<close>
  nothing but the sink. A log call that is filtered or finds the sink null leaves the
  whole state as it was. A log call that is delivered stores nothing itself: the state
  after it is the state the sink function leaves, so the level and the sink are unchanged
  whenever the sink function leaves them unchanged.
\<close>

theorem config_frame:
  "get_sink (set_level L st) = get_sink st \<and>
   stderr (set_level L st) = stderr st \<and> user (set_level L st) = user st \<and>
   get_level (set_sink s st) = get_level st \<and>
   stderr (set_sink s st) = stderr st \<and> user (set_sink s st) = user st \<and>
   (static_cast_int E < static_cast_int (get_level st) \<or> get_sink st = nullptr \<longrightarrow>
      logf code E fi li fu fmt ap st = ((Normal (), st), [])) \<and>
   (static_cast_int (get_level st) \<le> static_cast_int E \<and> get_sink st = fn_at a \<longrightarrow>
      fst (logf code E fi li fu fmt ap st) = code a E fi li fu fmt ap st) \<and>
   ((\<forall>a. get_sink st = fn_at a \<longrightarrow>
        get_level (snd (code a E fi li fu fmt ap st)) = get_level st \<and>
        get_sink (snd (code a E fi li fu fmt ap st)) = get_sink st) \<longrightarrow>
      get_level (snd (fst (logf code E fi li fu fmt ap st))) = get_level st \<and>
      get_sink (snd (fst (logf code E fi li fu fmt ap st))) = get_sink st)"
  by (auto simp: get_level_def set_level_def get_sink_def set_sink_def
      get_log_level_def set_log_level_def get_log_sink_def set_log_sink_def
      logf_def vlog_dispatch_def split: log_sink_t.splits)

theorem config_frame_witness:
  "static_cast_int (get_level counting_process) \<le> static_cast_int warn \<and>
   get_sink counting_process = fn_at 1 \<and>
   fst (logf two_sinks warn None 7 None None [] counting_process) =
     (Normal (), counting_process\<lparr>user := 1\<rparr>) \<and>
   get_level (snd (fst (logf two_sinks warn None 7 None None [] counting_process))) =
     get_level counting_process \<and>
   get_sink (snd (fst (logf two_sinks warn None 7 None None [] counting_process))) =
     get_sink counting_process \<and>
   logf two_sinks debug None 7 None None [] counting_process = ((Normal (), counting_process), [])"
proof -
  have l: "get_level counting_process = info"
    by (simp add: get_level_def get_log_level_def counting_process_def)
  have k: "get_sink counting_process = fn_at 1"
    by (simp add: get_sink_def get_log_sink_def counting_process_def)
  have c: "two_sinks 1 warn None 7 None None [] counting_process =
      (Normal (), counting_process\<lparr>user := 1\<rparr>)"
    by (simp add: two_sinks_def counting_sink_def counting_process_def)
  have p: "get_level (counting_process\<lparr>user := 1\<rparr>) = info \<and>
      get_sink (counting_process\<lparr>user := 1\<rparr>) = fn_at 1"
    by (simp add: get_level_def get_log_level_def get_sink_def get_log_sink_def
        counting_process_def)
  from config_frame [where st = counting_process and E = warn and code = two_sinks
      and fi = None and li = 7 and fu = None and fmt = None and ap = "[]" and a = 1]
    config_frame [where st = counting_process and E = debug and code = two_sinks
      and fi = None and li = 7 and fu = None and fmt = None and ap = "[]" and a = 1]
    l k c p
  show ?thesis by (simp add: level_defs)
qed

text \<open>
  C9, as it is stated, fails for a delivered call whose sink function sets the level:
  with the sink at address 2 active, which calls \<open>set_log_level(log_level::off)\<close>, the
  level is \<open>info\<close> before \<open>TC_LOG_WARN\<close> and \<open>off\<close> after it.
\<close>

theorem log_call_changes_level_counterexample:
  "get_level silencing_process = info \<and>
   get_level (snd (fst (TC_LOG_WARN two_sinks test_loc (Some ''warn visible'') []
                          silencing_process))) = off \<and>
   get_level (snd (fst (TC_LOG_WARN two_sinks test_loc (Some ''warn visible'') []
                          silencing_process))) \<noteq> get_level silencing_process"
  by (simp add: TC_LOG_WARN_def logf_def vlog_dispatch_def silencing_process_def
      two_sinks_def silencing_sink_def get_level_def get_log_level_def set_log_level_def
      level_defs)

section \<open>The level off\<close>

text \<open>
  C10. When the configured minimum level is \<open>off\<close>, a log call at any of the five named
  levels returns with the state as it was and calls no sink: each named level is below
  \<open>off\<close>.
\<close>

theorem off_filters_named_levels:
  assumes "get_log_level st = off"
  shows "(E \<in> {trace, debug, info, warn, error} \<longrightarrow>
            logf code E fi li fu fmt ap st = ((Normal (), st), [])) \<and>
         TC_LOG_TRACE code loc fmt ap st = ((Normal (), st), []) \<and>
         TC_LOG_DEBUG code loc fmt ap st = ((Normal (), st), []) \<and>
         TC_LOG_INFO code loc fmt ap st = ((Normal (), st), []) \<and>
         TC_LOG_WARN code loc fmt ap st = ((Normal (), st), []) \<and>
         TC_LOG_ERROR code loc fmt ap st = ((Normal (), st), []) \<and>
         (E \<in> {trace, debug, info, warn, error} \<longrightarrow> static_cast_int E < static_cast_int off)"
  using assms
  by (auto simp: logf_def vlog_dispatch_def get_log_level_def log_macro_defs level_defs)

theorem off_filters_named_levels_witness:
  "get_log_level (set_level off counting_process) = off \<and>
   error \<in> {trace, debug, info, warn, error} \<and>
   logf two_sinks error None 7 None (Some ''err'') [] (set_level off counting_process) =
     ((Normal (), set_level off counting_process), []) \<and>
   TC_LOG_ERROR two_sinks test_loc (Some ''err'') [] (set_level off counting_process) =
     ((Normal (), set_level off counting_process), [])"
proof -
  have o: "get_log_level (set_level off counting_process) = off"
    by (simp add: get_log_level_def set_level_def set_log_level_def)
  from off_filters_named_levels [OF o, where E = error and code = two_sinks and fi = None
      and li = 7 and fu = None and fmt = "Some ''err''" and ap = "[]" and loc = test_loc] o
  show ?thesis by simp
qed

end
